theory Spec2Isabelle
  imports Complex_Main "HOL-Library.Sublist"
begin

section \<open>Python values\<close>

text \<open>
  A Python float is modelled by the number it denotes: a rational, one of the two
  infinities, or NaN. Comparisons of floats are exact, so nothing is lost for
  \<open><=\<close>; the two zeros of the hardware format are one value here. A Python
  string is the list of the bytes of its UTF-8 encoding: an ASCII character is one byte
  below 128, and every byte of any other character is 128 or more. Concatenation,
  equality and the substring test are the same on the bytes as on the characters.
\<close>

datatype pyfloat = Finite rat | PosInf | NegInf | NaN

text \<open>\<open>x <= y\<close> on floats: every comparison with NaN is false.\<close>

fun float_le :: "pyfloat \<Rightarrow> pyfloat \<Rightarrow> bool" where
  "float_le NaN _ = False"
| "float_le _ NaN = False"
| "float_le NegInf _ = True"
| "float_le _ PosInf = True"
| "float_le (Finite a) (Finite b) = (a \<le> b)"
| "float_le PosInf _ = False"
| "float_le _ NegInf = False"

text \<open>\<open>x < y\<close> on floats, used to state the classification buckets.\<close>

fun float_lt :: "pyfloat \<Rightarrow> pyfloat \<Rightarrow> bool" where
  "float_lt NaN _ = False"
| "float_lt _ NaN = False"
| "float_lt PosInf _ = False"
| "float_lt _ NegInf = False"
| "float_lt NegInf _ = True"
| "float_lt _ PosInf = True"
| "float_lt (Finite a) (Finite b) = (a < b)"

text \<open>What \<open>request.get_json()\<close> hands to the handler: a parsed JSON value
  (\<open>JNull\<close> is Python's \<open>None\<close>). An object keeps its members in arrival
  order, as a Python dict does; a dict holds each key once, and lookup takes the first
  member with the key.\<close>

datatype json =
    JNull
  | JBool bool
  | JInt int
  | JFloat pyfloat
  | JStr string
  | JArr "json list"
  | JObj "(string \<times> json) list"

text \<open>Exceptions, by the classes the handlers and the builtins tell apart. Each class
  stands for itself and its subclasses; \<open>OtherError\<close> is any other class deriving
  from \<open>Exception\<close>. The string is \<open>str(e)\<close>.\<close>

datatype exc_class =
    FileNotFoundError
  | ValueError
  | TypeError
  | OverflowError
  | KeyError
  | IndexError
  | AttributeError
  | OtherError

datatype exc = Exc exc_class string

fun exc_cls :: "exc \<Rightarrow> exc_class" where
  "exc_cls (Exc c m) = c"

fun exc_str :: "exc \<Rightarrow> string" where
  "exc_str (Exc c m) = m"

text \<open>Sequencing of computations that may raise: the first exception wins.\<close>

definition exc_bind :: "exc + 'a \<Rightarrow> ('a \<Rightarrow> exc + 'b) \<Rightarrow> exc + 'b" where
  "exc_bind m f = (case m of Inl e \<Rightarrow> Inl e | Inr x \<Rightarrow> f x)"

definition quoted :: "string \<Rightarrow> string" where
  "quoted s = CHR 0x27 # s @ [CHR 0x27]"

fun type_name :: "json \<Rightarrow> string" where
  "type_name JNull = ''NoneType''"
| "type_name (JBool b) = ''bool''"
| "type_name (JInt i) = ''int''"
| "type_name (JFloat x) = ''float''"
| "type_name (JStr s) = ''str''"
| "type_name (JArr xs) = ''list''"
| "type_name (JObj kvs) = ''dict''"

text \<open>Truth value of a Python object, as \<open>not data\<close> tests it.\<close>

fun truthy :: "json \<Rightarrow> bool" where
  "truthy JNull = False"
| "truthy (JBool b) = b"
| "truthy (JInt i) = (i \<noteq> 0)"
| "truthy (JFloat x) = (x \<noteq> Finite 0)"
| "truthy (JStr s) = (s \<noteq> [])"
| "truthy (JArr xs) = (xs \<noteq> [])"
| "truthy (JObj kvs) = (kvs \<noteq> [])"

text \<open>\<open>f in data\<close> for a string \<open>f\<close>: key membership in a dict, element
  membership in a list, substring test in a string, TypeError otherwise.\<close>

fun py_in :: "string \<Rightarrow> json \<Rightarrow> exc + bool" where
  "py_in f (JObj kvs) = Inr (f \<in> set (map fst kvs))"
| "py_in f (JArr xs) = Inr (JStr f \<in> set xs)"
| "py_in f (JStr s) = Inr (sublist f s)"
| "py_in f v = Inl (Exc TypeError (''argument of type '' @ quoted (type_name v) @ '' is not iterable''))"

text \<open>\<open>data[key]\<close> for a string key.\<close>

fun subscript :: "json \<Rightarrow> string \<Rightarrow> exc + json" where
  "subscript (JObj kvs) k =
     (case map_of kvs k of Some v \<Rightarrow> Inr v | None \<Rightarrow> Inl (Exc KeyError (quoted k)))"
| "subscript (JArr xs) k = Inl (Exc TypeError ''list indices must be integers or slices, not str'')"
| "subscript (JStr s) k = Inl (Exc TypeError (''string indices must be integers, not '' @ quoted ''str''))"
| "subscript v k = Inl (Exc TypeError (quoted (type_name v) @ '' object is not subscriptable''))"

text \<open>\<open>float(n)\<close> for an int: exact up to 53 bits, otherwise rounded to 53
  significant bits, ties to even; OverflowError from \<open>2^1024\<close> on.\<close>

function bit_length :: "int \<Rightarrow> nat" where
  "bit_length n = (if n \<le> 0 then 0 else Suc (bit_length (n div 2)))"
  by pat_completeness auto
termination
  by (relation "measure nat") auto

declare bit_length.simps [simp del]

definition round_to_double :: "int \<Rightarrow> int" where
  "round_to_double a =
     (if bit_length a \<le> 53 then a
      else let sh = bit_length a - 53;
               q = a div 2 ^ sh;
               r = a mod 2 ^ sh;
               half = 2 ^ (sh - 1);
               q' = (if r > half \<or> (r = half \<and> odd q) then q + 1 else q)
           in q' * 2 ^ sh)"

definition float_of_int :: "int \<Rightarrow> exc + pyfloat" where
  "float_of_int i =
     (let v = round_to_double \<bar>i\<bar>
      in if v \<ge> 2 ^ 1024 then Inl (Exc OverflowError ''int too large to convert to float'')
         else Inr (Finite (of_int (if i < 0 then - v else v))))"

text \<open>What the interpreter computes and this theory does not: \<open>float(s)\<close> for a
  string (\<open>None\<close> when it raises ValueError); \<open>repr\<close>, which is also
  \<open>str\<close> on everything that is not a string; and \<open>str.upper()\<close> on a run of
  non-ASCII characters, which follows the Unicode tables.\<close>

record pylib =
  float_of_str :: "string \<Rightarrow> pyfloat option"
  repr :: "json \<Rightarrow> string"
  upper_non_ascii :: "string \<Rightarrow> string"

fun py_float :: "pylib \<Rightarrow> json \<Rightarrow> exc + pyfloat" where
  "py_float lib (JFloat x) = Inr x"
| "py_float lib (JInt i) = float_of_int i"
| "py_float lib (JBool b) = Inr (Finite (if b then 1 else 0))"
| "py_float lib (JStr s) =
     (case float_of_str lib s of
        Some x \<Rightarrow> Inr x
      | None \<Rightarrow> Inl (Exc ValueError (''could not convert string to float: '' @ repr lib (JStr s))))"
| "py_float lib v =
     Inl (Exc TypeError (''float() argument must be a string or a real number, not '' @ quoted (type_name v)))"

fun py_str :: "pylib \<Rightarrow> json \<Rightarrow> string" where
  "py_str lib (JStr s) = s"
| "py_str lib v = repr lib v"

text \<open>\<open>str.upper()\<close> maps each character on its own and concatenates the
  results. An ASCII character is mapped here: a lower-case letter to its capital, any
  other to itself. A maximal run of bytes from 128 on is a run of whole non-ASCII
  characters; its upper-casing, which may differ in length (sharp s becomes SS), is the
  interpreter's.\<close>

definition is_ascii :: "char \<Rightarrow> bool" where
  "is_ascii c = ((of_char c :: nat) < 128)"

definition upper_char :: "char \<Rightarrow> char" where
  "upper_char c =
     (let n = (of_char c :: nat)
      in if of_char CHR ''a'' \<le> n \<and> n \<le> of_char CHR ''z'' then char_of (n - 32) else c)"

function upper :: "pylib \<Rightarrow> string \<Rightarrow> string" where
  "upper lib [] = []"
| "upper lib (c # cs) =
     (if is_ascii c then upper_char c # upper lib cs
      else upper_non_ascii lib (c # takeWhile (\<lambda>b. \<not> is_ascii b) cs)
           @ upper lib (dropWhile (\<lambda>b. \<not> is_ascii b) cs))"
  by pat_completeness auto
termination
  by (relation "measure (\<lambda>(lib, s). length s)") (auto simp add: length_dropWhile_le less_Suc_eq_le)

text \<open>\<open>sep.join(xs)\<close>.\<close>

fun join :: "string \<Rightarrow> string list \<Rightarrow> string" where
  "join sep [] = []"
| "join sep [x] = x"
| "join sep (x # y # ys) = x @ sep @ join sep (y # ys)"

section \<open>The application\<close>

text \<open>The row of the DataFrame passed to the model.\<close>

record features =
  temperature :: pyfloat
  humidity :: pyfloat
  time_in_inventory :: pyfloat
  ingredient_type :: string
  storage_type :: string

text \<open>The loaded artifact, seen through \<open>model.predict\<close>: it raises or returns an
  array of predictions.\<close>

type_synonym predictor = "features \<Rightarrow> exc + pyfloat list"

text \<open>The module globals \<open>model\<close> and \<open>model_loaded\<close>.\<close>

record globals =
  model :: "predictor option"
  model_loaded :: bool

type_synonym response = "json \<times> nat"

definition MODEL_PATH :: "(string \<Rightarrow> string option) \<Rightarrow> string" where
  "MODEL_PATH getenv =
     (case getenv ''MODEL_PATH'' of Some p \<Rightarrow> p | None \<Rightarrow> ''expiry_predictor_model.joblib'')"

text \<open>The three texts \<open>load_model\<close> prints; each starts with a non-ASCII sign.\<close>

definition loaded_message :: "string \<Rightarrow> string" where
  "loaded_message path =
     [CHR 0xE2, CHR 0x9C, CHR 0x85] @ '' Model loaded successfully from '' @ path"

definition not_found_message :: "string \<Rightarrow> string" where
  "not_found_message path =
     [CHR 0xE2, CHR 0x9A, CHR 0xA0, CHR 0xEF, CHR 0xB8, CHR 0x8F] @ '' Model file not found at '' @ path"

definition error_message :: "exc \<Rightarrow> string" where
  "error_message e = [CHR 0xE2, CHR 0x9D, CHR 0x8C] @ '' Error loading model: '' @ exc_str e"

text \<open>The two except clauses of \<open>load_model\<close>, entered with the exception \<open>e\<close>.
  \<open>py_print\<close> tells whether \<open>print\<close> raises on a text (\<open>None\<close>: it does
  not); what it writes is not modelled. An exception raised by \<open>print\<close> inside a
  handler leaves the function.\<close>

definition load_handlers :: "(string \<Rightarrow> exc option) \<Rightarrow> string \<Rightarrow> exc \<Rightarrow> exc + bool" where
  "load_handlers py_print path e =
     (if exc_cls e = FileNotFoundError then
        (case py_print (not_found_message path) of Some e' \<Rightarrow> Inl e' | None \<Rightarrow> Inr False)
      else
        (case py_print (error_message e) of Some e' \<Rightarrow> Inl e' | None \<Rightarrow> Inr False))"

text \<open>\<open>load_model\<close>, given what \<open>print\<close> and \<open>joblib.load\<close> do and the
  current value of the global \<open>model\<close>. It returns or raises, and leaves a value in
  the global: the assignment is done once \<open>joblib.load\<close> has returned, also when the
  \<open>print\<close> after it raises into the handlers.\<close>

definition load_model ::
  "(string \<Rightarrow> exc option) \<Rightarrow> (string \<Rightarrow> exc + predictor) \<Rightarrow> string \<Rightarrow> predictor option
     \<Rightarrow> (exc + bool) \<times> predictor option" where
  "load_model py_print joblib_load path m0 =
     (case joblib_load path of
        Inl e \<Rightarrow> (load_handlers py_print path e, m0)
      | Inr m \<Rightarrow>
          (case py_print (loaded_message path) of
             Some e \<Rightarrow> (load_handlers py_print path e, Some m)
           | None \<Rightarrow> (Inr True, Some m)))"

text \<open>Module initialisation: \<open>model = None\<close>, then \<open>model_loaded = load_model()\<close>.
  An exception of \<open>load_model\<close> ends the import: there is no application then.\<close>

definition startup ::
  "(string \<Rightarrow> exc option) \<Rightarrow> (string \<Rightarrow> string option) \<Rightarrow> (string \<Rightarrow> exc + predictor)
     \<Rightarrow> exc + globals" where
  "startup py_print getenv joblib_load =
     (case load_model py_print joblib_load (MODEL_PATH getenv) None of
        (Inl e, m) \<Rightarrow> Inl e
      | (Inr ok, m) \<Rightarrow> Inr \<lparr>model = m, model_loaded = ok\<rparr>)"

definition required_fields :: "string list" where
  "required_fields =
     [''temperature'', ''humidity'', ''time_in_refrigerator'', ''ingredient_type'', ''storage_type'']"

text \<open>\<open>[f for f in fs if f not in data]\<close>.\<close>

fun missing_of :: "string list \<Rightarrow> json \<Rightarrow> exc + string list" where
  "missing_of [] data = Inr []"
| "missing_of (f # fs) data =
     (case py_in f data of
        Inl e \<Rightarrow> Inl e
      | Inr b \<Rightarrow>
          (case missing_of fs data of
             Inl e \<Rightarrow> Inl e
           | Inr rest \<Rightarrow> Inr (if b then rest else f # rest)))"

definition error_body :: "string \<Rightarrow> json" where
  "error_body msg = JObj [(''error'', JStr msg)]"

text \<open>The dict literal of the try block, evaluated entry by entry.\<close>

definition build_features :: "pylib \<Rightarrow> json \<Rightarrow> exc + features" where
  "build_features lib data =
     exc_bind (exc_bind (subscript data ''temperature'') (py_float lib)) (\<lambda>t.
     exc_bind (exc_bind (subscript data ''humidity'') (py_float lib)) (\<lambda>h.
     exc_bind (exc_bind (subscript data ''time_in_refrigerator'') (py_float lib)) (\<lambda>ti.
     exc_bind (subscript data ''ingredient_type'') (\<lambda>it.
     exc_bind (subscript data ''storage_type'') (\<lambda>sto.
       Inr \<lparr>temperature = t, humidity = h, time_in_inventory = ti,
            ingredient_type = py_str lib it, storage_type = upper lib (py_str lib sto)\<rparr>)))))"

text \<open>\<open>float(model.predict(features)[0])\<close>.\<close>

definition model_output :: "globals \<Rightarrow> features \<Rightarrow> exc + pyfloat" where
  "model_output g x =
     (case model g of
        None \<Rightarrow> Inl (Exc AttributeError (quoted ''NoneType'' @ '' object has no attribute '' @ quoted ''predict''))
      | Some m \<Rightarrow>
          exc_bind (m x) (\<lambda>ys.
            case ys of
              [] \<Rightarrow> Inl (Exc IndexError ''index 0 is out of bounds for axis 0 with size 0'')
            | y # _ \<Rightarrow> Inr y))"

definition classify :: "pyfloat \<Rightarrow> string" where
  "classify predicted_hours =
     (if float_le predicted_hours (Finite 0) then ''Expired''
      else if float_le predicted_hours (Finite 24) then ''Stale''
      else ''Fresh'')"

definition success_body :: "pyfloat \<Rightarrow> string \<Rightarrow> json" where
  "success_body predicted_hours classification =
     JObj [(''hours_until_expiry'', JFloat predicted_hours),
           (''classification'', JStr classification)]"

text \<open>The body of the try block.\<close>

definition try_block :: "pylib \<Rightarrow> globals \<Rightarrow> json \<Rightarrow> exc + response" where
  "try_block lib g data =
     exc_bind (build_features lib data) (\<lambda>x.
     exc_bind (model_output g x) (\<lambda>predicted_hours.
       Inr (success_body predicted_hours (classify predicted_hours), 200)))"

text \<open>\<open>predict\<close>, on the value \<open>request.get_json()\<close> returned. \<open>Inl\<close> is an
  exception that leaves the handler.\<close>

definition predict :: "pylib \<Rightarrow> globals \<Rightarrow> json \<Rightarrow> exc + response" where
  "predict lib g data =
     (if \<not> model_loaded g then Inr (error_body ''Model not loaded'', 500)
      else if \<not> truthy data then Inr (error_body ''No data provided'', 400)
      else
        exc_bind (missing_of required_fields data) (\<lambda>missing.
          if missing \<noteq> [] then Inr (error_body (''Missing fields: '' @ join '', '' missing), 400)
          else
            (case try_block lib g data of
               Inr r \<Rightarrow> Inr r
             | Inl e \<Rightarrow>
                 if exc_cls e = ValueError
                 then Inr (error_body (''Invalid input: '' @ exc_str e), 400)
                 else Inr (error_body (''Prediction error: '' @ exc_str e), 500))))"

definition health :: "globals \<Rightarrow> response" where
  "health g =
     (JObj [(''status'', JStr ''healthy''), (''model_loaded'', JBool (model_loaded g))], 200)"

definition home :: "globals \<Rightarrow> response" where
  "home g =
     (JObj [(''message'', JStr ''Ingredient Expiry Prediction API is running!''),
            (''endpoints'', JArr [JStr ''/predict'', JStr ''/health'']),
            (''model_loaded'', JBool (model_loaded g))], 200)"

section \<open>Serving requests\<close>

text \<open>A call to one of the three routes. No handler declares a global or assigns to
  one, so serving a call hands the globals on as they were.\<close>

datatype call = POST_predict json | GET_health | GET_home

fun handle :: "pylib \<Rightarrow> globals \<Rightarrow> call \<Rightarrow> (exc + response) \<times> globals" where
  "handle lib g (POST_predict data) = (predict lib g data, g)"
| "handle lib g GET_health = (Inr (health g), g)"
| "handle lib g GET_home = (Inr (home g), g)"

text \<open>A sequence of calls: each result with the globals after the call.\<close>

fun serve :: "pylib \<Rightarrow> globals \<Rightarrow> call list \<Rightarrow> ((exc + response) \<times> globals) list" where
  "serve lib g [] = []"
| "serve lib g (c # cs) = (case handle lib g c of (r, g') \<Rightarrow> (r, g') # serve lib g' cs)"

section \<open>Notions used to state the properties\<close>

text \<open>Two bytes that are equal or the two cases of one ASCII letter; two strings
  that differ at most in the case of their ASCII letters.\<close>

definition is_upper_letter :: "char \<Rightarrow> bool" where
  "is_upper_letter c = (let n = (of_char c :: nat) in 65 \<le> n \<and> n \<le> 90)"

definition is_lower_letter :: "char \<Rightarrow> bool" where
  "is_lower_letter c = (let n = (of_char c :: nat) in 97 \<le> n \<and> n \<le> 122)"

definition case_variant :: "char \<Rightarrow> char \<Rightarrow> bool" where
  "case_variant a b =
     (a = b
      \<or> (is_upper_letter a \<and> (of_char b :: nat) = of_char a + 32)
      \<or> (is_upper_letter b \<and> (of_char a :: nat) = of_char b + 32))"

definition same_up_to_case :: "string \<Rightarrow> string \<Rightarrow> bool" where
  "same_up_to_case s1 s2 = list_all2 case_variant s1 s2"

text \<open>The keys of a JSON object.\<close>

definition keys :: "(string \<times> json) list \<Rightarrow> string set" where
  "keys kvs = set (map fst kvs)"

text \<open>The fields the try block passes to \<open>float\<close>, in the order it evaluates
  them, and what it means that the field \<open>f\<close> of an object is coerced without an
  exception.\<close>

definition numeric_fields :: "string list" where
  "numeric_fields = [''temperature'', ''humidity'', ''time_in_refrigerator'']"

definition coerces :: "pylib \<Rightarrow> (string \<times> json) list \<Rightarrow> string \<Rightarrow> bool" where
  "coerces lib kvs f = (case map_of kvs f of None \<Rightarrow> False | Some v \<Rightarrow> \<not> isl (py_float lib v))"

section \<open>Concrete data for the worked examples\<close>

text \<open>A stand-in for the interpreter, enough for the examples: it reads strings of
  decimal digits and rejects the rest; its \<open>repr\<close> quotes a string; of the
  non-ASCII characters it upper-cases the small sharp s (U+00DF, bytes C3 9F) to
  \<open>SS\<close> and leaves the rest, among them the capital sharp s (U+1E9E, bytes
  E1 BA 9E), as they are.\<close>

definition is_digit :: "char \<Rightarrow> bool" where
  "is_digit c = (let n = (of_char c :: nat) in 48 \<le> n \<and> n \<le> 57)"

definition digits_float_of_str :: "string \<Rightarrow> pyfloat option" where
  "digits_float_of_str s =
     (if s \<noteq> [] \<and> list_all is_digit s
      then Some (Finite (of_nat (foldl (\<lambda>a c. 10 * a + (of_char c - 48)) 0 s)))
      else None)"

fun simple_repr :: "json \<Rightarrow> string" where
  "simple_repr (JStr s) = quoted s"
| "simple_repr JNull = ''None''"
| "simple_repr (JBool b) = (if b then ''True'' else ''False'')"
| "simple_repr v = ''<'' @ type_name v @ ''>''"

definition small_sharp_s :: string where
  "small_sharp_s = [CHR 0xC3, CHR 0x9F]"

definition capital_sharp_s :: string where
  "capital_sharp_s = [CHR 0xE1, CHR 0xBA, CHR 0x9E]"

definition sharp_s_upper :: "string \<Rightarrow> string" where
  "sharp_s_upper run = (if run = small_sharp_s then ''SS'' else run)"

definition example_lib :: pylib where
  "example_lib =
     \<lparr>float_of_str = digits_float_of_str, repr = simple_repr, upper_non_ascii = sharp_s_upper\<rparr>"

text \<open>Two standard outputs: one that takes every text, and one with the ASCII
  encoding, on which \<open>print\<close> raises UnicodeEncodeError, a ValueError, for a text
  with a non-ASCII character (the detail is abridged).\<close>

definition quiet_print :: "string \<Rightarrow> exc option" where
  "quiet_print msg = None"


text \<open>Four predictors: two that answer, looking at the storage type; one that raises
  ValueError (as a pipeline does on a category it has not seen); one that raises another
  error.\<close>

definition double_s_model :: predictor where
  "double_s_model x = Inr [if storage_type x = ''SS'' then Finite 48 else Finite 12]"

definition fridge_model :: predictor where
  "fridge_model x = Inr [if storage_type x = ''FRIDGE'' then Finite 48 else Finite 12]"

definition unknown_category_model :: predictor where
  "unknown_category_model x = Inl (Exc ValueError ''Found unknown categories'')"

definition broken_model :: predictor where
  "broken_model x = Inl (Exc OtherError ''boom'')"

definition loaded :: "predictor \<Rightarrow> globals" where
  "loaded m = \<lparr>model = Some m, model_loaded = True\<rparr>"

definition cheese_request :: "json \<Rightarrow> json \<Rightarrow> json \<Rightarrow> json" where
  "cheese_request t h sto =
     JObj [(''temperature'', t), (''humidity'', h), (''time_in_refrigerator'', JInt 10),
           (''ingredient_type'', JStr ''CHEESE''), (''storage_type'', sto)]"

definition no_env :: "string \<Rightarrow> string option" where
  "no_env name = None"

definition no_file :: "string \<Rightarrow> exc + predictor" where
  "no_file path = Inl (Exc FileNotFoundError (''No such file or directory: '' @ quoted path))"


section \<open>Auxiliary facts\<close>

lemma float_lt_not_le: "float_lt a b \<Longrightarrow> \<not> float_le b a"
  by (cases a; cases b) auto

lemma float_le_trans: "float_le a b \<Longrightarrow> float_le b c \<Longrightarrow> float_le a c"
  by (cases a; cases b; cases c) auto

text \<open>Past the three guards, the handler is the try block with its two except clauses.\<close>

lemma predict_try_block:
  assumes "model_loaded g" "truthy data" "missing_of required_fields data = Inr []"
  shows "predict lib g data =
    (case try_block lib g data of
       Inr r \<Rightarrow> Inr r
     | Inl e \<Rightarrow>
         if exc_cls e = ValueError
         then Inr (error_body (''Invalid input: '' @ exc_str e), 400)
         else Inr (error_body (''Prediction error: '' @ exc_str e), 500))"
  using assms by (simp add: predict_def exc_bind_def)

lemma cheese_truthy: "truthy (cheese_request t h sto)"
  by (simp add: cheese_request_def)

lemma cheese_missing: "missing_of required_fields (cheese_request t h sto) = Inr []"
  by (simp add: cheese_request_def required_fields_def)

lemma loaded_model_loaded: "model_loaded (loaded m)"
  by (simp add: loaded_def)

lemma cheese_features:
  "build_features example_lib (cheese_request (JInt 4) (JInt 65) (JStr ''fridge'')) =
     Inr \<lparr>temperature = Finite 4, humidity = Finite 65, time_in_inventory = Finite 10,
          ingredient_type = ''CHEESE'', storage_type = ''FRIDGE''\<rparr>"
  by code_simp

lemma fridge_output:
  "model_output (loaded fridge_model)
     \<lparr>temperature = Finite 4, humidity = Finite 65, time_in_inventory = Finite 10,
      ingredient_type = ''CHEESE'', storage_type = ''FRIDGE''\<rparr> = Inr (Finite 48)"
  by (simp add: model_output_def loaded_def fridge_model_def exc_bind_def)

section \<open>Classification thresholds\<close>

text \<open>
  C1. Whenever the handler gets as far as a predicted value \<open>ph\<close> (model loaded, body
  truthy, no field missing, the five coercions succeed and the model returns \<open>ph\<close>
  first), it answers 200 with \<open>ph\<close> and the class the thresholds give:
  \<open>ph <= 0\<close> is Expired, \<open>0 < ph <= 24\<close> is Stale, \<open>ph > 24\<close> is Fresh; in
  particular 24.0 is Stale and 0.0 is Expired.
\<close>

theorem predict_classification:
  assumes "model_loaded g" and "truthy data"
    and "missing_of required_fields data = Inr []"
    and "build_features lib data = Inr x"
    and "model_output g x = Inr ph"
  shows "predict lib g data = Inr (success_body ph (classify ph), 200)
    \<and> (float_le ph (Finite 0) \<longrightarrow> classify ph = ''Expired'')
    \<and> (float_lt (Finite 0) ph \<and> float_le ph (Finite 24) \<longrightarrow> classify ph = ''Stale'')
    \<and> (float_lt (Finite 24) ph \<longrightarrow> classify ph = ''Fresh'')
    \<and> classify (Finite 24) = ''Stale'' \<and> classify (Finite 0) = ''Expired''"
proof -
  have resp: "predict lib g data = Inr (success_body ph (classify ph), 200)"
    using assms by (simp add: predict_try_block try_block_def exc_bind_def)
  have expired: "float_le ph (Finite 0) \<longrightarrow> classify ph = ''Expired''"
    by (simp add: classify_def)
  have stale: "float_lt (Finite 0) ph \<and> float_le ph (Finite 24) \<longrightarrow> classify ph = ''Stale''"
    using float_lt_not_le [of "Finite 0" ph] by (auto simp add: classify_def)
  have fresh: "float_lt (Finite 24) ph \<longrightarrow> classify ph = ''Fresh''"
  proof
    assume gt: "float_lt (Finite 24) ph"
    then have n24: "\<not> float_le ph (Finite 24)" by (rule float_lt_not_le)
    have "\<not> float_le ph (Finite 0)"
    proof
      assume "float_le ph (Finite 0)"
      moreover have "float_le (Finite 0) (Finite 24)" by simp
      ultimately have "float_le ph (Finite 24)" by (rule float_le_trans)
      with n24 show False by simp
    qed
    with n24 show "classify ph = ''Fresh''" by (simp add: classify_def)
  qed
  have bounds: "classify (Finite 24) = ''Stale'' \<and> classify (Finite 0) = ''Expired''"
    by (simp add: classify_def)
  from resp expired stale fresh bounds show ?thesis by blast
qed

theorem predict_classification_witness:
  "model_loaded (loaded fridge_model)
   \<and> truthy (cheese_request (JInt 4) (JInt 65) (JStr ''fridge''))
   \<and> predict example_lib (loaded fridge_model) (cheese_request (JInt 4) (JInt 65) (JStr ''fridge''))
       = Inr (success_body (Finite 48) ''Fresh'', 200)"
proof -
  from predict_classification
    [OF loaded_model_loaded cheese_truthy cheese_missing cheese_features fridge_output]
  show ?thesis by (simp add: cheese_truthy loaded_model_loaded)
qed

section \<open>Exceptions raised by the model call\<close>

lemma try_block_model_raises:
  assumes "build_features lib data = Inr x" and "model_output g x = Inl e"
  shows "try_block lib g data = Inl e"
  using assms by (simp add: try_block_def exc_bind_def)

lemma broken_output: "model_output (loaded broken_model) x = Inl (Exc OtherError ''boom'')"
  by (simp add: model_output_def loaded_def broken_model_def exc_bind_def)

lemma unknown_category_output:
  "model_output (loaded unknown_category_model) x = Inl (Exc ValueError ''Found unknown categories'')"
  by (simp add: model_output_def loaded_def unknown_category_model_def exc_bind_def)

text \<open>
  C2, as the code has it. With the model loaded, the body truthy, no field missing and
  the feature record built, an exception raised by the model call (the call itself, or
  taking element 0 of its result) is answered by its class: 500 with
  \<open>Prediction error: <detail>\<close> when it is not a ValueError, and 400 with
  \<open>Invalid input: <detail>\<close> when it is one.
\<close>

theorem model_exception_response:
  assumes "model_loaded g" and "truthy data"
    and "missing_of required_fields data = Inr []"
    and "build_features lib data = Inr x"
    and "model_output g x = Inl e"
  shows "predict lib g data =
    Inr (if exc_cls e = ValueError
         then (error_body (''Invalid input: '' @ exc_str e), 400)
         else (error_body (''Prediction error: '' @ exc_str e), 500))"
  using assms by (simp add: predict_try_block try_block_model_raises)

theorem model_exception_response_witness:
  "model_loaded (loaded broken_model)
   \<and> predict example_lib (loaded broken_model) (cheese_request (JInt 4) (JInt 65) (JStr ''fridge''))
       = Inr (error_body ''Prediction error: boom'', 500)"
proof -
  from model_exception_response
    [OF loaded_model_loaded cheese_truthy cheese_missing cheese_features broken_output]
  show ?thesis by (simp add: loaded_model_loaded)
qed

text \<open>
  C2 as stated fails: a ValueError raised by the model, which is no coercion error, is
  caught by the first except clause and answered 400, not 500.
\<close>

theorem model_value_error_counterexample:
  "predict example_lib (loaded unknown_category_model)
     (cheese_request (JInt 4) (JInt 65) (JStr ''fridge''))
   = Inr (error_body ''Invalid input: Found unknown categories'', 400)"
proof -
  have "try_block example_lib (loaded unknown_category_model)
      (cheese_request (JInt 4) (JInt 65) (JStr ''fridge''))
    = Inl (Exc ValueError ''Found unknown categories'')"
    by (rule try_block_model_raises [OF cheese_features unknown_category_output])
  then show ?thesis
    by (simp add: predict_try_block [OF loaded_model_loaded cheese_truthy cheese_missing])
qed

section \<open>Missing fields\<close>

lemma missing_of_object:
  "missing_of fs (JObj kvs) = Inr (filter (\<lambda>f. f \<notin> keys kvs) fs)"
  by (induction fs) (simp_all add: keys_def)

lemma predict_object_missing:
  assumes "model_loaded g" and "kvs \<noteq> []" and "\<not> set required_fields \<subseteq> keys kvs"
  shows "predict lib g (JObj kvs) =
    Inr (error_body (''Missing fields: '' @ join '', '' (filter (\<lambda>f. f \<notin> keys kvs) required_fields)), 400)"
proof -
  from assms(3) have "filter (\<lambda>f. f \<notin> keys kvs) required_fields \<noteq> []"
    by (auto simp add: filter_empty_conv)
  with assms(1,2) show ?thesis
    by (simp add: predict_def missing_of_object exc_bind_def)
qed

text \<open>
  C3, as the code has it. With the model loaded, a JSON object that is not empty and
  lacks at least one required field is answered 400 with \<open>Missing fields:\<close> and the
  absent required fields, comma-joined: exactly the required fields that are no key of
  the object, in the order of the declared list. The answer depends on the set of keys
  only, so not on the order the members arrive in.
\<close>

theorem missing_fields_response:
  assumes "model_loaded g" and "kvs \<noteq> []" and "\<not> set required_fields \<subseteq> keys kvs"
  shows "predict lib g (JObj kvs) =
      Inr (error_body (''Missing fields: '' @ join '', '' (filter (\<lambda>f. f \<notin> keys kvs) required_fields)), 400)
    \<and> set (filter (\<lambda>f. f \<notin> keys kvs) required_fields) = set required_fields - keys kvs
    \<and> subseq (filter (\<lambda>f. f \<notin> keys kvs) required_fields) required_fields
    \<and> (\<forall>kvs'. keys kvs' = keys kvs \<longrightarrow> predict lib g (JObj kvs') = predict lib g (JObj kvs))"
proof -
  have same: "predict lib g (JObj kvs') = predict lib g (JObj kvs)" if k: "keys kvs' = keys kvs" for kvs'
  proof -
    from assms(2) have "keys kvs \<noteq> {}" by (cases kvs) (simp_all add: keys_def)
    with k have ne: "kvs' \<noteq> []" by (auto simp add: keys_def)
    from assms(3) k have "\<not> set required_fields \<subseteq> keys kvs'" by simp
    from predict_object_missing [OF assms(1) ne this] predict_object_missing [OF assms] k
    show ?thesis by simp
  qed
  have "set (filter (\<lambda>f. f \<notin> keys kvs) required_fields) = set required_fields - keys kvs"
    by auto
  with predict_object_missing [OF assms] same show ?thesis by simp
qed

theorem missing_fields_response_witness:
  "predict example_lib (loaded fridge_model)
     (JObj [(''ingredient_type'', JStr ''CHEESE''), (''time_in_refrigerator'', JInt 10),
            (''temperature'', JInt 4)])
   = Inr (error_body ''Missing fields: humidity, storage_type'', 400)"
proof -
  let ?kvs = "[(''ingredient_type'', JStr ''CHEESE''), (''time_in_refrigerator'', JInt 10),
            (''temperature'', JInt 4)]"
  have ne: "?kvs \<noteq> []" by simp
  have miss: "\<not> set required_fields \<subseteq> keys ?kvs"
    by (simp add: required_fields_def keys_def)
  from missing_fields_response [OF loaded_model_loaded ne miss, of example_lib]
  show ?thesis by (simp add: required_fields_def keys_def)
qed

text \<open>
  C3 as stated fails on the empty object: it is a JSON object lacking all five fields,
  and the answer is \<open>No data provided\<close>, not the list of the five.
\<close>

theorem empty_object_counterexample:
  "predict example_lib (loaded fridge_model) (JObj []) = Inr (error_body ''No data provided'', 400)
   \<and> predict example_lib (loaded fridge_model) (JObj []) \<noteq>
       Inr (error_body ''Missing fields: temperature, humidity, time_in_refrigerator, ingredient_type, storage_type'', 400)"
  by (simp add: predict_def loaded_def error_body_def)

section \<open>Coercion failures\<close>

text \<open>The coercions run in the order of the dict literal, so the first numeric field
  whose coercion raises decides the exception that leaves the try block.\<close>

lemma first_failure:
  assumes "i < length numeric_fields"
    and "map_of kvs (numeric_fields ! i) = Some v"
    and "py_float lib v = Inl e"
    and "list_all (coerces lib kvs) (take i numeric_fields)"
  shows "build_features lib (JObj kvs) = Inl e"
proof -
  from assms(1) have "i < 3" by (simp add: numeric_fields_def)
  then consider "i = 0" | "i = 1" | "i = 2" by arith
  then show ?thesis
  proof cases
    case 1
    with assms(2,3) show ?thesis
      by (simp add: numeric_fields_def build_features_def exc_bind_def)
  next
    case 2
    with assms(2,3,4) show ?thesis
      by (auto simp add: numeric_fields_def build_features_def exc_bind_def coerces_def
          split: option.splits sum.splits)
  next
    case 3
    with assms(2,3,4) show ?thesis
      by (auto simp add: numeric_fields_def build_features_def exc_bind_def coerces_def
          split: option.splits sum.splits)
  qed
qed

lemma predict_all_present:
  assumes "model_loaded g" and "set required_fields \<subseteq> keys kvs"
  shows "predict lib g (JObj kvs) =
    (case try_block lib g (JObj kvs) of
       Inr r \<Rightarrow> Inr r
     | Inl e \<Rightarrow>
         if exc_cls e = ValueError
         then Inr (error_body (''Invalid input: '' @ exc_str e), 400)
         else Inr (error_body (''Prediction error: '' @ exc_str e), 500))"
proof -
  from assms(2) have "kvs \<noteq> []" by (auto simp add: required_fields_def keys_def)
  then have t: "truthy (JObj kvs)" by simp
  from assms(2) have "filter (\<lambda>f. f \<notin> keys kvs) required_fields = []"
    by (auto simp add: filter_empty_conv)
  then have m: "missing_of required_fields (JObj kvs) = Inr []"
    by (simp add: missing_of_object)
  from predict_try_block [OF assms(1) t m] show ?thesis .
qed

lemma predict_first_failure:
  assumes "model_loaded g" and "set required_fields \<subseteq> keys kvs"
    and "i < length numeric_fields"
    and "map_of kvs (numeric_fields ! i) = Some v"
    and "py_float lib v = Inl e"
    and "list_all (coerces lib kvs) (take i numeric_fields)"
  shows "predict lib g (JObj kvs) =
    Inr (if exc_cls e = ValueError
         then (error_body (''Invalid input: '' @ exc_str e), 400)
         else (error_body (''Prediction error: '' @ exc_str e), 500))"
proof -
  have "try_block lib g (JObj kvs) = Inl e"
    using first_failure [OF assms(3-6)] by (simp add: try_block_def exc_bind_def)
  then show ?thesis by (simp add: predict_all_present [OF assms(1,2)])
qed

lemma cheese_keys: "set required_fields \<subseteq> keys [(''temperature'', t), (''humidity'', h), (''time_in_refrigerator'', JInt 10),
           (''ingredient_type'', JStr ''CHEESE''), (''storage_type'', sto)]"
  by (simp add: required_fields_def keys_def)

lemma abc_not_numeric: "float_of_str example_lib ''abc'' = None"
  by (simp add: example_lib_def digits_float_of_str_def is_digit_def)

lemma four_coerces: "coerces example_lib ((''temperature'', JInt 4) # kvs) ''temperature''"
  by code_simp

text \<open>
  C4, as the code has it. With the model loaded and all five fields present, when a
  numeric field holds a string that \<open>float\<close> rejects and every numeric field
  evaluated before it (in the order temperature, humidity, time_in_refrigerator) is
  coerced without an exception, the answer is 400 with \<open>Invalid input:\<close> followed
  by the ValueError's text.
\<close>

theorem non_numeric_string_response:
  assumes "model_loaded g" and "set required_fields \<subseteq> keys kvs"
    and "i < length numeric_fields"
    and "map_of kvs (numeric_fields ! i) = Some (JStr s)"
    and "float_of_str lib s = None"
    and "list_all (coerces lib kvs) (take i numeric_fields)"
  shows "predict lib g (JObj kvs) =
    Inr (error_body (''Invalid input: could not convert string to float: '' @ repr lib (JStr s)), 400)"
proof -
  from assms(5) have "py_float lib (JStr s) =
      Inl (Exc ValueError (''could not convert string to float: '' @ repr lib (JStr s)))"
    by simp
  from predict_first_failure [OF assms(1-4) this assms(6)] show ?thesis by simp
qed

theorem non_numeric_string_response_witness:
  "predict example_lib (loaded fridge_model) (cheese_request (JInt 4) (JStr ''abc'') (JStr ''fridge''))
   = Inr (error_body (''Invalid input: could not convert string to float: '' @ quoted ''abc''), 400)"
proof -
  let ?kvs = "[(''temperature'', JInt 4), (''humidity'', JStr ''abc''), (''time_in_refrigerator'', JInt 10),
           (''ingredient_type'', JStr ''CHEESE''), (''storage_type'', JStr ''fridge'')]"
  have i: "1 < length numeric_fields" by (simp add: numeric_fields_def)
  have v: "map_of ?kvs (numeric_fields ! 1) = Some (JStr ''abc'')"
    by (simp add: numeric_fields_def)
  have before: "list_all (coerces example_lib ?kvs) (take 1 numeric_fields)"
    by (simp add: numeric_fields_def four_coerces)
  from non_numeric_string_response [OF loaded_model_loaded cheese_keys i v abc_not_numeric before]
  show ?thesis by (simp add: cheese_request_def example_lib_def)
qed

text \<open>
  C4 as stated fails: with \<open>temperature\<close> null and \<open>humidity\<close> the string
  \<open>abc\<close>, the coercion of \<open>temperature\<close> raises TypeError first and the
  answer is 500.
\<close>

theorem null_before_string_counterexample:
  "float_of_str example_lib ''abc'' = None
   \<and> predict example_lib (loaded fridge_model) (cheese_request JNull (JStr ''abc'') (JStr ''fridge''))
     = Inr (error_body (''Prediction error: float() argument must be a string or a real number, not ''
              @ quoted ''NoneType''), 500)"
proof -
  let ?kvs = "[(''temperature'', JNull), (''humidity'', JStr ''abc''), (''time_in_refrigerator'', JInt 10),
           (''ingredient_type'', JStr ''CHEESE''), (''storage_type'', JStr ''fridge'')]"
  have i: "0 < length numeric_fields" by (simp add: numeric_fields_def)
  have v: "map_of ?kvs (numeric_fields ! 0) = Some JNull"
    by (simp add: numeric_fields_def)
  have e: "py_float example_lib JNull = Inl (Exc TypeError
      (''float() argument must be a string or a real number, not '' @ quoted (type_name JNull)))"
    by simp
  have before: "list_all (coerces example_lib ?kvs) (take 0 numeric_fields)" by simp
  from predict_first_failure [OF loaded_model_loaded cheese_keys i v e before] abc_not_numeric
  show ?thesis by (simp add: cheese_request_def)
qed

text \<open>
  C10, as the code has it. With the model loaded and all five fields present, when a
  numeric field holds null and every numeric field evaluated before it is coerced
  without an exception: no field is reported missing (membership is by key),
  \<open>float(None)\<close> raises TypeError, not ValueError, and the answer is 500 with
  \<open>Prediction error:\<close> followed by the TypeError's text.
\<close>

theorem null_field_response:
  assumes "model_loaded g" and "set required_fields \<subseteq> keys kvs"
    and "i < length numeric_fields"
    and "map_of kvs (numeric_fields ! i) = Some JNull"
    and "list_all (coerces lib kvs) (take i numeric_fields)"
  shows "missing_of required_fields (JObj kvs) = Inr []
    \<and> py_float lib JNull =
        Inl (Exc TypeError (''float() argument must be a string or a real number, not ''
               @ quoted ''NoneType''))
    \<and> predict lib g (JObj kvs) =
        Inr (error_body (''Prediction error: float() argument must be a string or a real number, not ''
               @ quoted ''NoneType''), 500)"
proof -
  from assms(2) have "filter (\<lambda>f. f \<notin> keys kvs) required_fields = []"
    by (auto simp add: filter_empty_conv)
  then have m: "missing_of required_fields (JObj kvs) = Inr []"
    by (simp add: missing_of_object)
  have e: "py_float lib JNull = Inl (Exc TypeError
      (''float() argument must be a string or a real number, not '' @ quoted (type_name JNull)))"
    by simp
  from predict_first_failure [OF assms(1-4) e assms(5)] m show ?thesis by simp
qed

theorem null_field_response_witness:
  "predict example_lib (loaded fridge_model) (cheese_request (JInt 4) JNull (JStr ''fridge''))
   = Inr (error_body (''Prediction error: float() argument must be a string or a real number, not ''
              @ quoted ''NoneType''), 500)"
proof -
  let ?kvs = "[(''temperature'', JInt 4), (''humidity'', JNull), (''time_in_refrigerator'', JInt 10),
           (''ingredient_type'', JStr ''CHEESE''), (''storage_type'', JStr ''fridge'')]"
  have i: "1 < length numeric_fields" by (simp add: numeric_fields_def)
  have v: "map_of ?kvs (numeric_fields ! 1) = Some JNull"
    by (simp add: numeric_fields_def)
  have before: "list_all (coerces example_lib ?kvs) (take 1 numeric_fields)"
    by (simp add: numeric_fields_def four_coerces)
  from null_field_response [OF loaded_model_loaded cheese_keys i v before]
  show ?thesis by (simp add: cheese_request_def)
qed

text \<open>
  C10 as stated fails: with \<open>temperature\<close> the string \<open>abc\<close> and
  \<open>humidity\<close> null, the coercion of \<open>temperature\<close> raises ValueError first
  and the answer is 400 \<open>Invalid input\<close>.
\<close>

theorem string_before_null_counterexample:
  "predict example_lib (loaded fridge_model) (cheese_request (JStr ''abc'') JNull (JStr ''fridge''))
   = Inr (error_body (''Invalid input: could not convert string to float: '' @ quoted ''abc''), 400)"
proof -
  let ?kvs = "[(''temperature'', JStr ''abc''), (''humidity'', JNull), (''time_in_refrigerator'', JInt 10),
           (''ingredient_type'', JStr ''CHEESE''), (''storage_type'', JStr ''fridge'')]"
  have i: "0 < length numeric_fields" by (simp add: numeric_fields_def)
  have v: "map_of ?kvs (numeric_fields ! 0) = Some (JStr ''abc'')"
    by (simp add: numeric_fields_def)
  have e: "py_float example_lib (JStr ''abc'') = Inl (Exc ValueError
      (''could not convert string to float: '' @ quoted ''abc''))"
    by (simp add: abc_not_numeric) (simp add: example_lib_def)
  have before: "list_all (coerces example_lib ?kvs) (take 0 numeric_fields)" by simp
  from predict_first_failure [OF loaded_model_loaded cheese_keys i v e before]
  show ?thesis by (simp add: cheese_request_def)
qed

section \<open>Loading the model\<close>







lemma load_handlers_result:
  assumes "load_handlers py_print path e = Inr ok"
  shows "\<not> ok"
  using assms by (auto simp add: load_handlers_def split: if_splits option.splits)

lemma startup_after_failed_load:
  assumes "joblib_load (MODEL_PATH getenv) = Inl e"
    and "startup py_print getenv joblib_load = Inr g"
  shows "g = \<lparr>model = None, model_loaded = False\<rparr>"
proof -
  from assms obtain ok where h: "load_handlers py_print (MODEL_PATH getenv) e = Inr ok"
    and g: "g = \<lparr>model = None, model_loaded = ok\<rparr>"
    by (auto simp add: startup_def load_model_def split: sum.splits)
  from load_handlers_result [OF h] g show ?thesis by simp
qed

lemma no_file_load: "no_file (MODEL_PATH no_env) = Inl (Exc FileNotFoundError
   (''No such file or directory: '' @ quoted ''expiry_predictor_model.joblib''))"
  by (simp add: no_file_def MODEL_PATH_def no_env_def)

text \<open>
  C5. When loading the model failed at startup, then in every application that came
  up, \<open>model_loaded\<close> is false, \<open>predict\<close> answers every request body (whatever
  \<open>get_json\<close> returned, and whatever the builtins do) with 500
  \<open>Model not loaded\<close>, and \<open>health\<close> answers 200 with \<open>model_loaded\<close> false;
  and the application does come up when \<open>print\<close> does not raise.
\<close>

theorem model_not_loaded_response:
  assumes "joblib_load (MODEL_PATH getenv) = Inl e"
  shows "(\<forall>g. startup py_print getenv joblib_load = Inr g \<longrightarrow>
            \<not> model_loaded g
            \<and> (\<forall>lib data. predict lib g data = Inr (error_body ''Model not loaded'', 500))
            \<and> health g = (JObj [(''status'', JStr ''healthy''), (''model_loaded'', JBool False)], 200))
    \<and> ((\<forall>msg. py_print msg = None) \<longrightarrow>
          startup py_print getenv joblib_load = Inr \<lparr>model = None, model_loaded = False\<rparr>)"
proof -
  have served: "\<not> model_loaded g
      \<and> (\<forall>lib data. predict lib g data = Inr (error_body ''Model not loaded'', 500))
      \<and> health g = (JObj [(''status'', JStr ''healthy''), (''model_loaded'', JBool False)], 200)"
    if "startup py_print getenv joblib_load = Inr g" for g
  proof -
    have g: "g = \<lparr>model = None, model_loaded = False\<rparr>"
      using assms that by (rule startup_after_failed_load)
    then have "\<forall>lib data. predict lib g data = Inr (error_body ''Model not loaded'', 500)"
      by (simp add: predict_def)
    moreover from g
    have "health g = (JObj [(''status'', JStr ''healthy''), (''model_loaded'', JBool False)], 200)"
      by (simp add: health_def)
    ultimately show ?thesis using g by simp
  qed
  have starts: "startup py_print getenv joblib_load = Inr \<lparr>model = None, model_loaded = False\<rparr>"
    if "\<forall>msg. py_print msg = None"
    using assms that by (simp add: startup_def load_model_def load_handlers_def)
  from served starts show ?thesis by blast
qed

theorem model_not_loaded_response_witness:
  "startup quiet_print no_env no_file = Inr \<lparr>model = None, model_loaded = False\<rparr>
    \<and> predict example_lib \<lparr>model = None, model_loaded = False\<rparr>
          (cheese_request (JInt 4) (JInt 65) (JStr ''fridge''))
        = Inr (error_body ''Model not loaded'', 500)
    \<and> health \<lparr>model = None, model_loaded = False\<rparr>
        = (JObj [(''status'', JStr ''healthy''), (''model_loaded'', JBool False)], 200)"
proof -
  have q: "\<forall>msg. quiet_print msg = None" by (simp add: quiet_print_def)
  from model_not_loaded_response
    [where joblib_load = no_file and getenv = no_env and py_print = quiet_print, OF no_file_load] q
  have s: "startup quiet_print no_env no_file = Inr \<lparr>model = None, model_loaded = False\<rparr>"
    by blast
  from model_not_loaded_response
    [where joblib_load = no_file and getenv = no_env and py_print = quiet_print, OF no_file_load] s
  show ?thesis by simp
qed

section \<open>The empty object\<close>

text \<open>
  C9. With the model loaded, the empty JSON object is answered 400
  \<open>No data provided\<close>: all five required fields are absent from it, yet the answer
  is not the \<open>Missing fields\<close> message listing the five.
\<close>

theorem empty_object_response:
  assumes "model_loaded g"
  shows "predict lib g (JObj []) = Inr (error_body ''No data provided'', 400)
    \<and> missing_of required_fields (JObj []) = Inr required_fields
    \<and> predict lib g (JObj []) \<noteq>
        Inr (error_body (''Missing fields: '' @ join '', '' required_fields), 400)"
  using assms by (simp add: predict_def missing_of_object keys_def error_body_def)

theorem empty_object_response_witness:
  "model_loaded (loaded broken_model)
   \<and> predict example_lib (loaded broken_model) (JObj []) = Inr (error_body ''No data provided'', 400)"
  using empty_object_response [OF loaded_model_loaded, of example_lib broken_model]
  by (simp add: loaded_model_loaded)

section \<open>Case of the storage type\<close>

lemma exc_bind_Inr: "exc_bind (Inr x) f = f x"
  by (simp add: exc_bind_def)

lemma keys_map_of: "f \<in> keys kvs \<longleftrightarrow> map_of kvs f \<noteq> None"
  by (simp add: keys_def map_of_eq_None_iff)

lemma upper_char_variant:
  assumes "case_variant a b"
  shows "upper_char a = upper_char b"
proof -
  have up: "upper_char x = upper_char y"
    if "is_upper_letter x" and "(of_char y :: nat) = of_char x + 32" for x y
  proof -
    from that have "upper_char x = x"
      by (simp add: upper_char_def is_upper_letter_def Let_def)
    moreover from that have "upper_char y = char_of (of_char x :: nat)"
      by (simp add: upper_char_def is_upper_letter_def Let_def)
    ultimately show ?thesis by simp
  qed
  from assms consider "a = b"
    | "is_upper_letter a \<and> (of_char b :: nat) = of_char a + 32"
    | "is_upper_letter b \<and> (of_char a :: nat) = of_char b + 32"
    unfolding case_variant_def by blast
  then show ?thesis
  proof cases
    case 1
    then show ?thesis by simp
  next
    case 2
    then show ?thesis using up [of a b] by simp
  next
    case 3
    then show ?thesis using up [of b a] by simp
  qed
qed

lemma variant_ascii:
  assumes "case_variant a b"
  shows "is_ascii a = is_ascii b"
  using assms by (auto simp add: case_variant_def is_ascii_def is_upper_letter_def Let_def)

lemma variant_non_ascii:
  assumes "case_variant a b" and "\<not> is_ascii a"
  shows "a = b"
  using assms by (auto simp add: case_variant_def is_ascii_def is_upper_letter_def Let_def)

lemma variant_runs:
  assumes "list_all2 case_variant cs ds"
  shows "takeWhile (\<lambda>b. \<not> is_ascii b) cs = takeWhile (\<lambda>b. \<not> is_ascii b) ds
    \<and> list_all2 case_variant (dropWhile (\<lambda>b. \<not> is_ascii b) cs) (dropWhile (\<lambda>b. \<not> is_ascii b) ds)"
  using assms
proof (induction cs ds rule: list_all2_induct)
  case Nil
  show ?case by simp
next
  case (Cons c cs d ds)
  from Cons.hyps(1) have a: "is_ascii c = is_ascii d" by (rule variant_ascii)
  show ?case
  proof (cases "is_ascii c")
    case True
    with a Cons.hyps show ?thesis by simp
  next
    case False
    with Cons.hyps(1) have "c = d" by (simp add: variant_non_ascii)
    with False Cons.IH show ?thesis by simp
  qed
qed

lemma upper_variant:
  assumes "list_all2 case_variant s1 s2"
  shows "upper lib s1 = upper lib s2"
  using assms
proof (induction lib s1 arbitrary: s2 rule: upper.induct)
  case (1 lib)
  then show ?case by simp
next
  case (2 lib c cs)
  from "2.prems" obtain d ds where s2: "s2 = d # ds" and cd: "case_variant c d"
    and rest: "list_all2 case_variant cs ds"
    by (auto simp add: list_all2_Cons1)
  show ?case
  proof (cases "is_ascii c")
    case True
    with cd have "is_ascii d" by (simp add: variant_ascii)
    moreover from True rest have "upper lib cs = upper lib ds" by (rule "2.IH"(1))
    ultimately show ?thesis using True s2 cd by (simp add: upper_char_variant)
  next
    case False
    have d: "d = c" using variant_non_ascii [OF cd False] by simp
    from variant_runs [OF rest]
    have t: "takeWhile (\<lambda>b. \<not> is_ascii b) cs = takeWhile (\<lambda>b. \<not> is_ascii b) ds"
      and r: "list_all2 case_variant (dropWhile (\<lambda>b. \<not> is_ascii b) cs) (dropWhile (\<lambda>b. \<not> is_ascii b) ds)"
      by simp_all
    from False r have "upper lib (dropWhile (\<lambda>b. \<not> is_ascii b) cs) = upper lib (dropWhile (\<lambda>b. \<not> is_ascii b) ds)"
      by (rule "2.IH"(2))
    with False s2 d t show ?thesis by simp
  qed
qed

lemma upper_ascii:
  assumes "list_all is_ascii s"
  shows "upper lib s = map upper_char s"
  using assms by (induction s) simp_all

lemma upper_char_variant_self: "is_ascii c \<Longrightarrow> case_variant c (upper_char c)"
proof -
  assume "is_ascii c"
  show ?thesis
  proof (cases "is_lower_letter c")
    case True
    then have n: "97 \<le> (of_char c :: nat)" "(of_char c :: nat) \<le> 122"
      by (simp_all add: is_lower_letter_def Let_def)
    then have u: "upper_char c = char_of ((of_char c :: nat) - 32)"
      by (simp add: upper_char_def Let_def)
    from n have k: "(of_char (char_of ((of_char c :: nat) - 32)) :: nat) = of_char c - 32"
      by simp
    from n have "65 \<le> (of_char c :: nat) - 32" and "(of_char c :: nat) - 32 \<le> 90"
      and "(of_char c :: nat) = of_char c - 32 + 32"
      by arith+
    with u k show ?thesis
      by (simp add: case_variant_def is_upper_letter_def Let_def)
  next
    case False
    then have "upper_char c = c"
      by (auto simp add: upper_char_def is_lower_letter_def Let_def)
    then show ?thesis by (simp add: case_variant_def)
  qed
qed

lemma upper_char_not_lower: "\<not> is_lower_letter (upper_char c)"
proof (cases "is_lower_letter c")
  case True
  then have n: "97 \<le> (of_char c :: nat)" "(of_char c :: nat) \<le> 122"
    by (simp_all add: is_lower_letter_def Let_def)
  then have u: "upper_char c = char_of ((of_char c :: nat) - 32)"
    by (simp add: upper_char_def Let_def)
  from n have "(of_char (char_of ((of_char c :: nat) - 32)) :: nat) = of_char c - 32"
    by simp
  moreover from n have "\<not> 97 \<le> (of_char c :: nat) - 32" by arith
  ultimately show ?thesis using u by (simp add: is_lower_letter_def Let_def)
next
  case False
  then have "upper_char c = c"
    by (auto simp add: upper_char_def is_lower_letter_def Let_def)
  with False show ?thesis by simp
qed

lemma upper_ascii_spec:
  assumes "list_all is_ascii s"
  shows "same_up_to_case s (upper lib s) \<and> list_all (\<lambda>c. \<not> is_lower_letter c) (upper lib s)"
proof -
  from assms have "list_all2 case_variant s (map upper_char s)"
    by (induction s) (simp_all add: upper_char_variant_self)
  moreover have "list_all (\<lambda>c. \<not> is_lower_letter c) (map upper_char s)"
    by (induction s) (simp_all add: upper_char_not_lower)
  ultimately show ?thesis by (simp add: same_up_to_case_def upper_ascii [OF assms])
qed


lemma fridge_variant: "same_up_to_case ''fridge'' ''FRIDGE''"
  by (simp add: same_up_to_case_def case_variant_def is_upper_letter_def)

lemma small_sharp_s_features:
  "build_features example_lib (cheese_request (JInt 4) (JInt 65) (JStr small_sharp_s))
     = Inr \<lparr>temperature = Finite 4, humidity = Finite 65, time_in_inventory = Finite 10,
          ingredient_type = ''CHEESE'', storage_type = ''SS''\<rparr>"
  by code_simp

lemma capital_sharp_s_features:
  "build_features example_lib (cheese_request (JInt 4) (JInt 65) (JStr capital_sharp_s))
     = Inr \<lparr>temperature = Finite 4, humidity = Finite 65, time_in_inventory = Finite 10,
          ingredient_type = ''CHEESE'', storage_type = capital_sharp_s\<rparr>"
  by code_simp

lemma capital_sharp_s_not_SS: "capital_sharp_s \<noteq> ''SS''"
  by (simp add: capital_sharp_s_def)

lemma double_s_output:
  "model_output (loaded double_s_model) x
     = Inr (if storage_type x = ''SS'' then Finite 48 else Finite 12)"
  by (simp add: model_output_def loaded_def double_s_model_def exc_bind_def)

text \<open>
  C7, as the code has it. Two request objects that agree on every key but
  \<open>storage_type\<close>, where they hold strings differing at most in the case of their
  ASCII letters, give the same feature record, hence the same result of the try block and
  the same response. The \<open>storage_type\<close> of the record is the upper-casing of the
  string; for an ASCII string that is the string with the same letters and no lower-case
  letter left.
\<close>

theorem storage_type_case_insensitive:
  assumes others: "\<forall>k. k \<noteq> ''storage_type'' \<longrightarrow> map_of kvs1 k = map_of kvs2 k"
    and s1: "map_of kvs1 ''storage_type'' = Some (JStr s1)"
    and s2: "map_of kvs2 ''storage_type'' = Some (JStr s2)"
    and variant: "same_up_to_case s1 s2"
  shows "build_features lib (JObj kvs1) = build_features lib (JObj kvs2)
    \<and> (\<forall>x. build_features lib (JObj kvs1) = Inr x \<longrightarrow>
          storage_type x = upper lib s1 \<and> storage_type x = upper lib s2
          \<and> (list_all is_ascii s1 \<longrightarrow>
                same_up_to_case s1 (storage_type x)
                \<and> list_all (\<lambda>c. \<not> is_lower_letter c) (storage_type x)))
    \<and> try_block lib g (JObj kvs1) = try_block lib g (JObj kvs2)
    \<and> predict lib g (JObj kvs1) = predict lib g (JObj kvs2)"
proof -
  have up: "upper lib s1 = upper lib s2"
    using variant unfolding same_up_to_case_def by (rule upper_variant)
  have t: "map_of kvs1 ''temperature'' = map_of kvs2 ''temperature''"
    and h: "map_of kvs1 ''humidity'' = map_of kvs2 ''humidity''"
    and ti: "map_of kvs1 ''time_in_refrigerator'' = map_of kvs2 ''time_in_refrigerator''"
    and it: "map_of kvs1 ''ingredient_type'' = map_of kvs2 ''ingredient_type''"
    using others by simp_all
  have feat: "build_features lib (JObj kvs1) = build_features lib (JObj kvs2)"
    by (simp add: build_features_def t h ti it s1 s2 up exc_bind_Inr)
  have st: "storage_type x = upper lib s1" if "build_features lib (JObj kvs1) = Inr x" for x
    using that
    by (auto simp add: build_features_def s1 exc_bind_def split: sum.splits option.splits)
  have tb: "try_block lib g (JObj kvs1) = try_block lib g (JObj kvs2)"
    by (simp add: try_block_def feat)
  have "f \<in> keys kvs1 \<longleftrightarrow> f \<in> keys kvs2" for f
    using others s1 s2 by (cases "f = ''storage_type''") (simp_all add: keys_map_of)
  then have k: "keys kvs1 = keys kvs2" by blast
  from s1 s2 have ne: "kvs1 \<noteq> []" "kvs2 \<noteq> []" by auto
  have resp: "predict lib g (JObj kvs1) = predict lib g (JObj kvs2)"
    unfolding predict_def missing_of_object k tb using ne by simp
  have "storage_type x = upper lib s1 \<and> storage_type x = upper lib s2
      \<and> (list_all is_ascii s1 \<longrightarrow>
            same_up_to_case s1 (storage_type x)
            \<and> list_all (\<lambda>c. \<not> is_lower_letter c) (storage_type x))"
    if "build_features lib (JObj kvs1) = Inr x" for x
    using st [OF that] up upper_ascii_spec [of s1 lib] by simp
  with feat tb resp show ?thesis by blast
qed

theorem storage_type_case_insensitive_witness:
  "same_up_to_case ''fridge'' ''FRIDGE''
   \<and> predict example_lib (loaded fridge_model) (cheese_request (JInt 4) (JInt 65) (JStr ''fridge''))
     = predict example_lib (loaded fridge_model) (cheese_request (JInt 4) (JInt 65) (JStr ''FRIDGE''))
   \<and> build_features example_lib (cheese_request (JInt 4) (JInt 65) (JStr ''FRIDGE''))
     = Inr \<lparr>temperature = Finite 4, humidity = Finite 65, time_in_inventory = Finite 10,
          ingredient_type = ''CHEESE'', storage_type = ''FRIDGE''\<rparr>"
proof -
  let ?a = "[(''temperature'', JInt 4), (''humidity'', JInt 65), (''time_in_refrigerator'', JInt 10),
           (''ingredient_type'', JStr ''CHEESE''), (''storage_type'', JStr ''fridge'')]"
  let ?b = "[(''temperature'', JInt 4), (''humidity'', JInt 65), (''time_in_refrigerator'', JInt 10),
           (''ingredient_type'', JStr ''CHEESE''), (''storage_type'', JStr ''FRIDGE'')]"
  have others: "\<forall>k. k \<noteq> ''storage_type'' \<longrightarrow> map_of ?a k = map_of ?b k" by simp
  have a: "map_of ?a ''storage_type'' = Some (JStr ''fridge'')" by simp
  have b: "map_of ?b ''storage_type'' = Some (JStr ''FRIDGE'')" by simp
  from storage_type_case_insensitive [OF others a b fridge_variant, of example_lib "loaded fridge_model"]
    cheese_features fridge_variant
  show ?thesis by (simp add: cheese_request_def)
qed

text \<open>
  C7 as stated fails beyond ASCII: the small and the capital sharp s are the two cases of
  one letter, but \<open>str.upper()\<close> turns the small one into \<open>SS\<close> and leaves the
  capital one, so the two feature records differ, and a model that looks at the storage
  type predicts differently.
\<close>

theorem sharp_s_counterexample:
  "build_features example_lib (cheese_request (JInt 4) (JInt 65) (JStr small_sharp_s))
     = Inr \<lparr>temperature = Finite 4, humidity = Finite 65, time_in_inventory = Finite 10,
          ingredient_type = ''CHEESE'', storage_type = ''SS''\<rparr>
   \<and> build_features example_lib (cheese_request (JInt 4) (JInt 65) (JStr capital_sharp_s))
     = Inr \<lparr>temperature = Finite 4, humidity = Finite 65, time_in_inventory = Finite 10,
          ingredient_type = ''CHEESE'', storage_type = capital_sharp_s\<rparr>
   \<and> predict example_lib (loaded double_s_model) (cheese_request (JInt 4) (JInt 65) (JStr small_sharp_s))
     = Inr (success_body (Finite 48) ''Fresh'', 200)
   \<and> predict example_lib (loaded double_s_model) (cheese_request (JInt 4) (JInt 65) (JStr capital_sharp_s))
     = Inr (success_body (Finite 12) ''Stale'', 200)"
proof -
  have a: "predict example_lib (loaded double_s_model)
      (cheese_request (JInt 4) (JInt 65) (JStr small_sharp_s))
    = Inr (success_body (Finite 48) ''Fresh'', 200)"
    by (simp add: predict_try_block [OF loaded_model_loaded cheese_truthy cheese_missing]
        try_block_def small_sharp_s_features double_s_output exc_bind_Inr classify_def)
  have b: "predict example_lib (loaded double_s_model)
      (cheese_request (JInt 4) (JInt 65) (JStr capital_sharp_s))
    = Inr (success_body (Finite 12) ''Stale'', 200)"
    by (simp add: predict_try_block [OF loaded_model_loaded cheese_truthy cheese_missing]
        try_block_def capital_sharp_s_features double_s_output exc_bind_Inr classify_def
        capital_sharp_s_not_SS)
  from a b small_sharp_s_features capital_sharp_s_features show ?thesis by simp
qed

section \<open>The handlers leave the globals alone\<close>

lemma handle_frame: "snd (handle lib g c) = g"
  by (cases c) simp_all

text \<open>
  C8. For every sequence of calls to the three handlers, the globals after each call
  are the globals before the first; every response is the one the call gives on those
  globals, so repeated calls to \<open>/\<close> and \<open>/health\<close> report the same
  \<open>model_loaded\<close>, the value of the flag.
\<close>

theorem handlers_preserve_globals:
  "map snd (serve lib g cs) = replicate (length cs) g
   \<and> map fst (serve lib g cs) = map (\<lambda>c. fst (handle lib g c)) cs
   \<and> handle lib g GET_health =
       (Inr (JObj [(''status'', JStr ''healthy''), (''model_loaded'', JBool (model_loaded g))], 200), g)
   \<and> handle lib g GET_home =
       (Inr (JObj [(''message'', JStr ''Ingredient Expiry Prediction API is running!''),
            (''endpoints'', JArr [JStr ''/predict'', JStr ''/health'']),
            (''model_loaded'', JBool (model_loaded g))], 200), g)"
proof -
  have "serve lib g cs = map (\<lambda>c. (fst (handle lib g c), g)) cs"
  proof (induction cs)
    case Nil
    show ?case by simp
  next
    case (Cons c cs)
    obtain r where "handle lib g c = (r, g)"
      using handle_frame [of lib g c] by (cases "handle lib g c") simp
    with Cons show ?case by simp
  qed
  then show ?thesis by (simp add: health_def home_def comp_def map_replicate_const)
qed

end
